theory Spec2Isabelle
  imports Main
begin

section \<open>SentinelArray: a fixed-capacity array with a movable end\<close>

text \<open>
  The class \<^verbatim>\<open>SentinelArray<T, N>\<close> of \<^verbatim>\<open>src/SentinelArray.h\<close> derives from
  \<^verbatim>\<open>std::array<T, N>\<close> and adds one private member, \<^verbatim>\<open>m_sentinel\<close>, of type
  \<^verbatim>\<open>size_type\<close>. The embedding keeps both parts in a record: \<open>data\<close> is the block of
  \<open>N\<close> slots of the base array (what \<^verbatim>\<open>this->data()\<close> points to) and \<open>m_sentinel\<close>
  is the member. The template parameter \<open>N\<close> is the number of slots of the block.

  \<^verbatim>\<open>size_type\<close> is an unsigned machine integer. The class never does arithmetic on
  it that could wrap (it is stored, compared and added to a pointer), so it is a
  \<open>nat\<close> here.

  Pointers, iterators and references into the block are offsets from
  \<^verbatim>\<open>this->data()\<close>: the iterator \<^verbatim>\<open>data() + k\<close> is \<open>k\<close>, and the reference
  \<^verbatim>\<open>data()[k]\<close> is \<open>k\<close> too. Reading or writing through an offset that is not a slot
  of the block has no defined behaviour in C++; \<open>load\<close> and the copy loop return
  \<open>undefined_behaviour\<close> there.

  \<^verbatim>\<open>assert\<close> is modelled as it behaves when it is compiled in (no \<^verbatim>\<open>NDEBUG\<close>): a
  false condition ends the call with \<open>assert_failure\<close>.
\<close>

record 'a SentinelArray =
  data :: "'a list"
  m_sentinel :: nat

datatype error =
    assert_failure
  | out_of_range string
  | undefined_behaviour

type_synonym reference = nat

type_synonym iterator = nat

definition N :: "'a SentinelArray \<Rightarrow> nat" where
  "N a = length (data a)"

subsection \<open>Construction and assignment\<close>

text \<open>
  \<^verbatim>\<open>SentinelArray() = default;\<close> with \<^verbatim>\<open>size_type m_sentinel;\<close> declared without an
  initialiser: default-initialisation runs no code, so both the slots and
  \<open>m_sentinel\<close> keep whatever the memory of the object held before. That memory is
  the argument of the model: \<open>mem\<close> for the \<open>N\<close> slots and \<open>w\<close> for the word that
  becomes \<open>m_sentinel\<close>.
\<close>

definition SentinelArray_default :: "'a list \<Rightarrow> nat \<Rightarrow> 'a SentinelArray" where
  "SentinelArray_default mem w = \<lparr>data = mem, m_sentinel = w\<rparr>"

text \<open>
  The loop shared by both sequence constructors and by \<^verbatim>\<open>operator=\<close>:
  \<^verbatim>\<open>for (it = first; it != last; ++it, ++i) this->data()[i] = *it;\<close>
  The source sequence is the list of the elements still to be visited, \<open>i\<close> is the
  loop counter and \<open>d\<close> the block being written.
\<close>

fun copy_loop :: "'a list \<Rightarrow> nat \<Rightarrow> 'a list \<Rightarrow> error + 'a list" where
  "copy_loop [] i d = Inr d"
| "copy_loop (x # xs) i d =
     (if i < length d then copy_loop xs (Suc i) (d[i := x]) else Inl undefined_behaviour)"

text \<open>
  \<^verbatim>\<open>SentinelArray(std::initializer_list<T> init) : m_sentinel(init.size())\<close>.
  The object is built in the memory \<open>mem\<close> (its \<open>N\<close> slots, not yet initialised).
\<close>

definition SentinelArray_init :: "'a list \<Rightarrow> 'a list \<Rightarrow> error + 'a SentinelArray" where
  "SentinelArray_init mem init =
     (let a = \<lparr>data = mem, m_sentinel = length init\<rparr> in
      if \<not> m_sentinel a \<le> N a then Inl assert_failure
      else case copy_loop init 0 (data a) of
             Inl e \<Rightarrow> Inl e
           | Inr d \<Rightarrow> Inr (a\<lparr>data := d\<rparr>))"

text \<open>
  \<^verbatim>\<open>SentinelArray(Iter begin, Iter end) : m_sentinel(std::distance(begin, end))\<close> for
  random-access iterators. The pair is given as the sequence \<open>rng\<close> it delimits, so
  \<^verbatim>\<open>std::distance(begin, end)\<close> is the length of \<open>rng\<close>.
\<close>

definition SentinelArray_range :: "'a list \<Rightarrow> 'a list \<Rightarrow> error + 'a SentinelArray" where
  "SentinelArray_range mem rng =
     (let a = \<lparr>data = mem, m_sentinel = length rng\<rparr> in
      if \<not> m_sentinel a \<le> N a then Inl assert_failure
      else case copy_loop rng 0 (data a) of
             Inl e \<Rightarrow> Inl e
           | Inr d \<Rightarrow> Inr (a\<lparr>data := d\<rparr>))"

text \<open>
  \<^verbatim>\<open>SentinelArray& operator=(std::initializer_list<T> init)\<close>: the member is
  assigned first, then the assertion is checked, then the loop runs.
\<close>

definition operator_assign :: "'a SentinelArray \<Rightarrow> 'a list \<Rightarrow> error + 'a SentinelArray" where
  "operator_assign a init =
     (let a1 = a\<lparr>m_sentinel := length init\<rparr> in
      if \<not> m_sentinel a1 \<le> N a1 then Inl assert_failure
      else case copy_loop init 0 (data a1) of
             Inl e \<Rightarrow> Inl e
           | Inr d \<Rightarrow> Inr (a1\<lparr>data := d\<rparr>))"

subsection \<open>Iterators, size, access\<close>

text \<open>\<^verbatim>\<open>begin()\<close> is inherited from the base array: the address of the block.\<close>

definition begin_sa :: "'a SentinelArray \<Rightarrow> iterator" where
  "begin_sa a = 0"

text \<open>
  \<^verbatim>\<open>end()\<close>: \<^verbatim>\<open>this->data() + m_sentinel\<close>. The const overload and \<^verbatim>\<open>cend()\<close>
  have the same body.
\<close>

definition end_sa :: "'a SentinelArray \<Rightarrow> iterator" where
  "end_sa a = 0 + m_sentinel a"

text \<open>\<^verbatim>\<open>size()\<close> returns \<^verbatim>\<open>m_sentinel\<close>.\<close>

definition size_sa :: "'a SentinelArray \<Rightarrow> nat" where
  "size_sa a = m_sentinel a"

text \<open>
  \<^verbatim>\<open>operator[]\<close> is inherited from the base array and does no check: the reference
  to the slot at offset \<open>pos\<close>.
\<close>

definition subscript :: "'a SentinelArray \<Rightarrow> nat \<Rightarrow> reference" where
  "subscript a pos = pos"

text \<open>Reading the value a reference or an iterator designates.\<close>

definition load :: "'a SentinelArray \<Rightarrow> reference \<Rightarrow> error + 'a" where
  "load a r = (if r < N a then Inr (data a ! r) else Inl undefined_behaviour)"

text \<open>
  \<^verbatim>\<open>std::to_string\<close> on an unsigned value: its decimal digits, most significant
  first.
\<close>

definition digit :: "nat \<Rightarrow> char" where
  "digit d = ''0123456789'' ! d"

function to_string :: "nat \<Rightarrow> string" where
  "to_string n = (if n < 10 then [digit n] else to_string (n div 10) @ [digit (n mod 10)])"
  by pat_completeness auto
termination
  by (relation "measure id") auto

declare to_string.simps [simp del]

text \<open>The text of the exception thrown by \<^verbatim>\<open>at\<close>.\<close>

definition what_at :: "nat \<Rightarrow> nat \<Rightarrow> string" where
  "what_at pos s =
     ''array::at: pos (which is '' @ to_string pos @
     '') >= m_sentinel (which is '' @ to_string s @ '')''"

text \<open>
  \<^verbatim>\<open>reference at(size_type pos)\<close>, the overload on a non-const object. It is handed
  the object and may write to it, so the model returns the object after the call
  beside the result.
\<close>

definition at :: "'a SentinelArray \<Rightarrow> nat \<Rightarrow> (error + reference) \<times> 'a SentinelArray" where
  "at a pos =
     (if \<not> pos < m_sentinel a then (Inl (out_of_range (what_at pos (m_sentinel a))), a)
      else (Inr (subscript a pos), a))"

text \<open>\<^verbatim>\<open>const_reference at(size_type pos) const\<close>.\<close>

definition at_const :: "'a SentinelArray \<Rightarrow> nat \<Rightarrow> error + reference" where
  "at_const a pos =
     (if \<not> pos < m_sentinel a then Inl (out_of_range (what_at pos (m_sentinel a)))
      else Inr (subscript a pos))"

text \<open>\<^verbatim>\<open>back()\<close>: \<^verbatim>\<open>return m_sentinel ? *(end() - 1) : *end();\<close>\<close>

definition back_sa :: "'a SentinelArray \<Rightarrow> reference" where
  "back_sa a = (if m_sentinel a \<noteq> 0 then end_sa a - 1 else end_sa a)"

text \<open>\<^verbatim>\<open>void setSentinel(size_type s)\<close>: \<^verbatim>\<open>m_sentinel = s;\<close> and nothing else.\<close>

definition setSentinel :: "'a SentinelArray \<Rightarrow> nat \<Rightarrow> 'a SentinelArray" where
  "setSentinel a s = a\<lparr>m_sentinel := s\<rparr>"

text \<open>
  A traversal \<^verbatim>\<open>for (it = first; it != lst; ++it) use(*it);\<close> over the block,
  collecting the values read. It stops with \<open>undefined_behaviour\<close> when it reads
  outside the block.
\<close>

function traverse :: "'a SentinelArray \<Rightarrow> iterator \<Rightarrow> iterator \<Rightarrow> error + 'a list" where
  "traverse a it lst =
     (if it = lst then Inr []
      else case load a it of
             Inl e \<Rightarrow> Inl e
           | Inr v \<Rightarrow> (case traverse a (Suc it) lst of
                        Inl e \<Rightarrow> Inl e
                      | Inr vs \<Rightarrow> Inr (v # vs)))"
  by pat_completeness auto
termination
  by (relation "measure (\<lambda>(a, it, lst). N a - it)")
     (auto simp: load_def split: if_splits)

declare traverse.simps [simp del]

text \<open>The values seen by iterating from \<^verbatim>\<open>begin()\<close> to \<^verbatim>\<open>end()\<close>.\<close>

definition elements :: "'a SentinelArray \<Rightarrow> error + 'a list" where
  "elements a = traverse a (begin_sa a) (end_sa a)"

text \<open>
  The containers a program can hold: one built by any of the three public
  constructors (the defaulted one, which has no precondition, or one of the two
  sequence constructors), followed by the operations that change or hand out the
  object: assignment from a sequence, \<^verbatim>\<open>setSentinel\<close> with an argument within the
  capacity, and \<^verbatim>\<open>at\<close>. A sequence constructor or an assignment that ends in an
  error yields no container, so only calls that return (\<open>Inr\<close>) extend the set; for
  these that means a sequence no longer than the capacity. \<open>n\<close> is the template
  parameter \<open>N\<close> of the type.
\<close>

inductive reachable :: "nat \<Rightarrow> 'a SentinelArray \<Rightarrow> bool" for n :: nat where
  by_default: "length mem = n \<Longrightarrow> reachable n (SentinelArray_default mem w)"
| by_init: "length mem = n \<Longrightarrow> SentinelArray_init mem xs = Inr a \<Longrightarrow> reachable n a"
| by_range: "length mem = n \<Longrightarrow> SentinelArray_range mem xs = Inr a \<Longrightarrow> reachable n a"
| by_assign: "reachable n a \<Longrightarrow> operator_assign a xs = Inr b \<Longrightarrow> reachable n b"
| by_setSentinel: "reachable n a \<Longrightarrow> s \<le> N a \<Longrightarrow> reachable n (setSentinel a s)"
| by_at: "reachable n a \<Longrightarrow> reachable n (snd (at a pos))"

section \<open>The copy loop and the traversal\<close>

lemma copy_loop_fits:
  "i + length xs \<le> length d \<Longrightarrow>
     copy_loop xs i d = Inr (take i d @ xs @ drop (i + length xs) d)"
proof (induction xs arbitrary: i d)
  case Nil
  then show ?case by simp
next
  case (Cons x xs)
  from Cons.prems have i: "i < length d" and fit: "Suc i + length xs \<le> length (d[i := x])"
    by simp_all
  have "copy_loop (x # xs) i d = copy_loop xs (Suc i) (d[i := x])"
    using i by simp
  also have "\<dots> = Inr (take (Suc i) (d[i := x]) @ xs @ drop (Suc i + length xs) (d[i := x]))"
    by (rule Cons.IH [OF fit])
  also have "take (Suc i) (d[i := x]) = take i d @ [x]"
    using i by (simp add: take_Suc_conv_app_nth)
  also have "drop (Suc i + length xs) (d[i := x]) = drop (i + length (x # xs)) d"
    by simp
  finally show ?case by simp
qed

lemma traverse_block:
  "it \<le> lst \<Longrightarrow> lst \<le> N a \<Longrightarrow>
     traverse a it lst = Inr (take (lst - it) (drop it (data a)))"
proof (induction a it lst rule: traverse.induct)
  case (1 a it lst)
  show ?case
  proof (cases "it = lst")
    case True
    then show ?thesis by (simp add: traverse.simps)
  next
    case False
    with "1.prems" have lt: "it < lst" and inb: "it < N a" by simp_all
    have ld: "load a it = Inr (data a ! it)"
      using inb by (simp add: load_def)
    have rest: "traverse a (Suc it) lst = Inr (take (lst - Suc it) (drop (Suc it) (data a)))"
      using "1.IH" [OF False ld] lt "1.prems" by simp
    have "drop it (data a) = data a ! it # drop (Suc it) (data a)"
      using inb by (simp add: N_def Cons_nth_drop_Suc)
    moreover have "lst - it = Suc (lst - Suc it)"
      using lt by simp
    ultimately have "take (lst - it) (drop it (data a)) =
        data a ! it # take (lst - Suc it) (drop (Suc it) (data a))"
      by simp
    then show ?thesis
      using False ld rest by (subst traverse.simps) simp
  qed
qed

lemma elements_prefix:
  "m_sentinel a \<le> N a \<Longrightarrow> elements a = Inr (take (m_sentinel a) (data a))"
  by (simp add: elements_def begin_sa_def end_sa_def traverse_block)

section \<open>What the constructors and the assignment return\<close>

lemma SentinelArray_init_fits:
  "length xs \<le> length mem \<Longrightarrow>
     SentinelArray_init mem xs = Inr \<lparr>data = xs @ drop (length xs) mem, m_sentinel = length xs\<rparr>"
  by (simp add: SentinelArray_init_def N_def copy_loop_fits)

lemma SentinelArray_range_fits:
  "length xs \<le> length mem \<Longrightarrow>
     SentinelArray_range mem xs = Inr \<lparr>data = xs @ drop (length xs) mem, m_sentinel = length xs\<rparr>"
  by (simp add: SentinelArray_range_def N_def copy_loop_fits)

lemma operator_assign_fits:
  "length xs \<le> N a \<Longrightarrow>
     operator_assign a xs = Inr \<lparr>data = xs @ drop (length xs) (data a), m_sentinel = length xs\<rparr>"
  by (simp add: operator_assign_def N_def copy_loop_fits)

lemma SentinelArray_init_Inr:
  assumes "SentinelArray_init mem xs = Inr a"
  shows "a = \<lparr>data = xs @ drop (length xs) mem, m_sentinel = length xs\<rparr> \<and>
         length xs \<le> length mem"
proof (cases "length xs \<le> length mem")
  case True
  with assms show ?thesis by (simp add: SentinelArray_init_fits)
next
  case False
  with assms show ?thesis by (simp add: SentinelArray_init_def N_def)
qed

lemma SentinelArray_range_Inr:
  assumes "SentinelArray_range mem xs = Inr a"
  shows "a = \<lparr>data = xs @ drop (length xs) mem, m_sentinel = length xs\<rparr> \<and>
         length xs \<le> length mem"
proof (cases "length xs \<le> length mem")
  case True
  with assms show ?thesis by (simp add: SentinelArray_range_fits)
next
  case False
  with assms show ?thesis by (simp add: SentinelArray_range_def N_def)
qed

lemma operator_assign_Inr:
  assumes "operator_assign a xs = Inr b"
  shows "b = \<lparr>data = xs @ drop (length xs) (data a), m_sentinel = length xs\<rparr> \<and>
         length xs \<le> N a"
proof (cases "length xs \<le> N a")
  case True
  with assms show ?thesis by (simp add: operator_assign_fits)
next
  case False
  with assms show ?thesis by (simp add: operator_assign_def N_def)
qed

text \<open>
  The defaulted constructor passes the stale word on as the length; only when that
  word is 0 (as after value-initialisation, which zeroes the object first) is the
  container empty.
\<close>

lemma SentinelArray_default_size:
  "size_sa (SentinelArray_default mem w) = w \<and> N (SentinelArray_default mem w) = length mem"
  by (simp add: SentinelArray_default_def size_sa_def N_def)

section \<open>Capacity and length along the operations\<close>

text \<open>The capacity of a container never changes, whichever constructor built it.\<close>

lemma reachable_capacity: "reachable n a \<Longrightarrow> N a = n"
proof (induction rule: reachable.induct)
  case (by_default mem w)
  then show ?case
    by (simp add: SentinelArray_default_def N_def)
next
  case (by_init mem xs a)
  from SentinelArray_init_Inr [OF by_init(2)] by_init(1) show ?case
    by (simp add: N_def)
next
  case (by_range mem xs a)
  from SentinelArray_range_Inr [OF by_range(2)] by_range(1) show ?case
    by (simp add: N_def)
next
  case (by_assign a xs b)
  from operator_assign_Inr [OF by_assign(2)] by_assign(3) show ?case
    by (auto simp: N_def)
next
  case (by_setSentinel a s)
  then show ?case
    by (simp add: setSentinel_def N_def)
next
  case (by_at a pos)
  then show ?case
    by (simp add: at_def)
qed

text \<open>
  The sequence constructors establish \<open>m_sentinel \<le> N\<close>, and assignment,
  \<^verbatim>\<open>setSentinel\<close> within the capacity and \<^verbatim>\<open>at\<close> give a container that has it,
  whatever the container they start from. The defaulted constructor is the one
  operation that does not establish it.
\<close>

lemma sequence_constructor_length:
  "SentinelArray_init mem xs = Inr a \<or> SentinelArray_range mem xs = Inr a \<Longrightarrow>
     m_sentinel a = length xs \<and> m_sentinel a \<le> N a"
  using SentinelArray_init_Inr [of mem xs a] SentinelArray_range_Inr [of mem xs a]
  by (auto simp: N_def)

lemma operator_assign_length:
  "operator_assign a xs = Inr b \<Longrightarrow> m_sentinel b = length xs \<and> m_sentinel b \<le> N b"
  using operator_assign_Inr [of a xs b] by (auto simp: N_def)

lemma setSentinel_length:
  "m_sentinel (setSentinel a s) = s \<and> (s \<le> N a \<longleftrightarrow> m_sentinel (setSentinel a s) \<le> N (setSentinel a s))"
  by (simp add: setSentinel_def N_def)

section \<open>The text of the exception determines the position and the length\<close>

lemma digit_inj: "d < 10 \<Longrightarrow> e < 10 \<Longrightarrow> digit d = digit e \<Longrightarrow> d = e"
  unfolding digit_def
  using nth_eq_iff_index_eq [of "''0123456789''" d e] by simp

lemma digit_is_digit: "d < 10 \<Longrightarrow> digit d \<in> set ''0123456789''"
  unfolding digit_def by (rule nth_mem) simp

lemma to_string_digits: "set (to_string n) \<subseteq> set ''0123456789''"
proof (induction n rule: to_string.induct)
  case (1 n)
  show ?case
  proof (cases "n < 10")
    case True
    then show ?thesis
      using digit_is_digit [of n] by (subst to_string.simps) simp
  next
    case False
    have "digit (n mod 10) \<in> set ''0123456789''"
      by (rule digit_is_digit) simp
    with False "1.IH" show ?thesis
      by (subst to_string.simps) simp
  qed
qed

lemma to_string_nonempty: "to_string n \<noteq> []"
  by (subst to_string.simps) simp

lemma to_string_inj: "to_string m = to_string n \<Longrightarrow> m = n"
proof (induction m arbitrary: n rule: to_string.induct)
  case (1 m)
  show ?case
  proof (cases "m < 10")
    case m: True
    show ?thesis
    proof (cases "n < 10")
      case True
      with m "1.prems" show ?thesis
        by (simp add: to_string.simps [of m] to_string.simps [of n] digit_inj)
    next
      case False
      with m "1.prems" to_string_nonempty [of "n div 10"] show ?thesis
        by (simp add: to_string.simps [of m] to_string.simps [of n] Cons_eq_append_conv)
    qed
  next
    case m: False
    show ?thesis
    proof (cases "n < 10")
      case True
      with m "1.prems" to_string_nonempty [of "m div 10"] show ?thesis
        by (simp add: to_string.simps [of m] to_string.simps [of n] append_eq_Cons_conv)
    next
      case False
      with m "1.prems" have hi: "to_string (m div 10) = to_string (n div 10)"
        and lo: "digit (m mod 10) = digit (n mod 10)"
        by (simp_all add: to_string.simps [of m] to_string.simps [of n])
      have "m div 10 = n div 10"
        using "1.IH" [OF m hi] .
      moreover have "m mod 10 = n mod 10"
        using lo by (intro digit_inj) simp_all
      ultimately show ?thesis
        by (metis div_mult_mod_eq)
    qed
  qed
qed

lemma digits_then_other:
  assumes "set u \<subseteq> D" "set v \<subseteq> D" "c \<notin> D" "u @ c # r = v @ c # r'"
  shows "u = v \<and> r = r'"
proof -
  have "takeWhile (\<lambda>x. x \<in> D) (u @ c # r) = u"
    using assms(1,3) by (simp add: takeWhile_append2 subset_iff)
  moreover have "takeWhile (\<lambda>x. x \<in> D) (v @ c # r') = v"
    using assms(2,3) by (simp add: takeWhile_append2 subset_iff)
  ultimately have "u = v"
    using assms(4) by simp
  with assms(4) show ?thesis by simp
qed

lemma what_at_inj:
  assumes "what_at p s = what_at p' s'"
  shows "p = p' \<and> s = s'"
proof -
  let ?D = "set ''0123456789''"
  let ?mid = "'' >= m_sentinel (which is ''"
  from assms have eq: "to_string p @ CHR '')'' # (?mid @ to_string s @ '')'')
      = to_string p' @ CHR '')'' # (?mid @ to_string s' @ '')'')"
    by (simp add: what_at_def)
  have nd: "CHR '')'' \<notin> ?D" by simp
  from digits_then_other [OF to_string_digits to_string_digits nd eq]
  have "to_string p = to_string p'" and "to_string s = to_string s'"
    by simp_all
  then show ?thesis
    by (simp add: to_string_inj)
qed

section \<open>The claims\<close>

text \<open>
  Claim C1. For every capacity \<open>N\<close> (the length of \<open>mem\<close>) and every sequence \<open>xs\<close> of
  \<open>k \<le> N\<close> elements, both sequence constructors return the same container: its
  capacity is \<open>N\<close>, \<^verbatim>\<open>size()\<close> is \<open>k\<close>, slots \<open>[0, k)\<close> hold \<open>xs\<close> in order, and the
  traversal from \<^verbatim>\<open>begin()\<close> to \<^verbatim>\<open>end()\<close> reads exactly \<open>xs\<close>.
\<close>

theorem construct_from_sequence:
  assumes "length xs \<le> length mem"
  shows "\<exists>a. SentinelArray_init mem xs = Inr a \<and> SentinelArray_range mem xs = Inr a \<and>
             N a = length mem \<and> size_sa a = length xs \<and>
             take (length xs) (data a) = xs \<and> elements a = Inr xs"
proof -
  let ?a = "\<lparr>data = xs @ drop (length xs) mem, m_sentinel = length xs\<rparr>"
  have n: "N ?a = length mem"
    using assms by (simp add: N_def)
  have "elements ?a = Inr (take (m_sentinel ?a) (data ?a))"
    by (rule elements_prefix) (simp add: n assms)
  then have "elements ?a = Inr xs"
    by simp
  with n assms show ?thesis
    by (simp add: SentinelArray_init_fits SentinelArray_range_fits size_sa_def)
qed

theorem construct_from_sequence_witness:
  "\<exists>a. SentinelArray_init [0, 0, 0, 0] [42, 1337 :: int] = Inr a \<and>
       SentinelArray_range [0, 0, 0, 0] [42, 1337 :: int] = Inr a \<and>
       N a = 4 \<and> size_sa a = 2 \<and> take 2 (data a) = [42, 1337] \<and>
       elements a = Inr [42, 1337]"
  using construct_from_sequence [of "[42, 1337 :: int]" "[0, 0, 0, 0]"]
  by (simp add: eval_nat_numeral)

text \<open>
  Claim C2. For every container and every position, \<^verbatim>\<open>at(pos)\<close> throws
  \<^verbatim>\<open>std::out_of_range\<close> exactly when \<open>pos\<close> is not below \<open>m_sentinel\<close>; the capacity
  plays no part in the test. The text of the exception is built from \<open>pos\<close> and
  \<open>m_sentinel\<close> and determines both. When \<open>pos\<close> is below \<open>m_sentinel\<close> the result is
  the reference \<^verbatim>\<open>operator[]\<close> gives for \<open>pos\<close>, the slot at offset \<open>pos\<close>, so
  reading through either gives the same value. The const overload returns the
  same result.
\<close>

theorem at_bounds_checked:
  "(m_sentinel a \<le> pos \<longrightarrow>
      fst (at a pos) = Inl (out_of_range (what_at pos (m_sentinel a)))) \<and>
   (pos < m_sentinel a \<longrightarrow>
      fst (at a pos) = Inr (subscript a pos) \<and> subscript a pos = pos \<and>
      (\<exists>r. fst (at a pos) = Inr r \<and> load a r = load a (subscript a pos))) \<and>
   ((\<exists>m. fst (at a pos) = Inl (out_of_range m)) \<longleftrightarrow> m_sentinel a \<le> pos) \<and>
   (\<forall>p s. fst (at a pos) = Inl (out_of_range (what_at p s)) \<longrightarrow>
      p = pos \<and> s = m_sentinel a) \<and>
   at_const a pos = fst (at a pos)"
proof (cases "pos < m_sentinel a")
  case True
  then show ?thesis
    by (simp add: at_def at_const_def subscript_def)
next
  case False
  then show ?thesis
    using what_at_inj by (auto simp: at_def at_const_def)
qed

theorem at_bounds_checked_witness:
  "fst (at \<lparr>data = [42, 1337, 0, 0 :: int], m_sentinel = 2\<rparr> 2)
     = Inl (out_of_range ''array::at: pos (which is 2) >= m_sentinel (which is 2)'') \<and>
   fst (at \<lparr>data = [42, 1337, 0, 0 :: int], m_sentinel = 2\<rparr> 1) = Inr 1"
  using at_bounds_checked [of "\<lparr>data = [42, 1337, 0, 0 :: int], m_sentinel = 2\<rparr>" 2]
    at_bounds_checked [of "\<lparr>data = [42, 1337, 0, 0 :: int], m_sentinel = 2\<rparr>" 1]
  by (simp add: what_at_def to_string.simps digit_def)

text \<open>
  Claim C3. For every sequence longer than the capacity, both sequence
  constructors and the assignment end in the failure of
  \<^verbatim>\<open>assert(m_sentinel <= N)\<close> (the specification's \<open>CapacityExceeded\<close>) and return no
  container.
\<close>

theorem capacity_exceeded:
  assumes "length mem < length xs" and "N a < length ys"
  shows "SentinelArray_init mem xs = Inl assert_failure \<and>
         SentinelArray_range mem xs = Inl assert_failure \<and>
         operator_assign a ys = Inl assert_failure"
  using assms
  by (simp add: SentinelArray_init_def SentinelArray_range_def operator_assign_def N_def)

theorem capacity_exceeded_witness:
  "SentinelArray_init [0, 0, 0, 0] [1, 2, 3, 4, 5 :: int] = Inl assert_failure \<and>
   SentinelArray_range [0, 0, 0, 0] [1, 2, 3, 4, 5 :: int] = Inl assert_failure \<and>
   operator_assign \<lparr>data = [1, 2, 3, 4 :: int], m_sentinel = 4\<rparr> [1, 2, 3, 4, 5]
     = Inl assert_failure"
  using capacity_exceeded [of "[0, 0, 0, 0]" "[1, 2, 3, 4, 5 :: int]"
      "\<lparr>data = [1, 2, 3, 4 :: int], m_sentinel = 4\<rparr>" "[1, 2, 3, 4, 5]"]
  by (simp add: N_def)

text \<open>
  Claim C4 says that \<^verbatim>\<open>size()\<close> is 0 and \<^verbatim>\<open>begin() == end()\<close> right after default
  construction. The defaulted constructor initialises nothing and \<^verbatim>\<open>m_sentinel\<close> has
  no initialiser, so after \<^verbatim>\<open>SentinelArray<int, 4> a;\<close> the member holds what its
  memory held before. With the word 7 there, \<^verbatim>\<open>size()\<close> is 7 and \<^verbatim>\<open>end()\<close> is not
  \<^verbatim>\<open>begin()\<close>.
\<close>

theorem default_length_indeterminate:
  "size_sa (SentinelArray_default [0, 0, 0, 0 :: int] 7) = 7 \<and>
   begin_sa (SentinelArray_default [0, 0, 0, 0 :: int] 7)
     \<noteq> end_sa (SentinelArray_default [0, 0, 0, 0 :: int] 7)"
  by (simp add: SentinelArray_default_def size_sa_def begin_sa_def end_sa_def)

text \<open>
  Claim C5 says that invariant I1, \<open>0 \<le> m_sentinel \<le> N\<close>, holds of every container
  produced by any sequence of public operations, each used within its
  precondition. The defaulted constructor is public and has no precondition, and it
  leaves \<^verbatim>\<open>m_sentinel\<close> uninitialised (the defect of claim C4): after
  \<^verbatim>\<open>SentinelArray<int, 4> a;\<close> in memory that held the word 7, the container is
  one a program can hold, its capacity is 4 and its \<open>m_sentinel\<close> is 7.
\<close>

theorem default_breaks_length_invariant:
  "reachable 4 (SentinelArray_default [0, 0, 0, 0 :: int] 7) \<and>
   N (SentinelArray_default [0, 0, 0, 0 :: int] 7) = 4 \<and>
   m_sentinel (SentinelArray_default [0, 0, 0, 0 :: int] 7) = 7 \<and>
   \<not> m_sentinel (SentinelArray_default [0, 0, 0, 0 :: int] 7)
       \<le> N (SentinelArray_default [0, 0, 0, 0 :: int] 7)"
proof -
  have "reachable 4 (SentinelArray_default [0, 0, 0, 0 :: int] 7)"
    by (rule by_default) simp
  then show ?thesis
    by (simp add: SentinelArray_default_def N_def)
qed

text \<open>
  Claim C6. For every container and every \<open>s\<close> (in particular every \<open>s \<le> N\<close>),
  \<^verbatim>\<open>setSentinel(s)\<close> makes \<^verbatim>\<open>size()\<close> equal to \<open>s\<close> and leaves the whole block as it
  was; so the slots \<open>[0, min(old length, s))\<close> are unchanged.
\<close>

theorem setSentinel_frame:
  "size_sa (setSentinel a s) = s \<and> data (setSentinel a s) = data a \<and>
   N (setSentinel a s) = N a \<and>
   take (min (m_sentinel a) s) (data (setSentinel a s)) = take (min (m_sentinel a) s) (data a)"
  by (simp add: setSentinel_def size_sa_def N_def)

text \<open>
  Claim C7. For every container and every sequence \<open>xs\<close> of \<open>k \<le> N\<close> elements, the
  assignment returns a container of the same capacity whose slots \<open>[0, k)\<close> hold
  \<open>xs\<close> in order, whose \<open>m_sentinel\<close> is \<open>k\<close>, and whose slots \<open>[k, N)\<close> hold what they
  held before.
\<close>

theorem assign_overwrites_prefix:
  assumes "length xs \<le> N a"
  shows "\<exists>b. operator_assign a xs = Inr b \<and> m_sentinel b = length xs \<and> N b = N a \<and>
             take (length xs) (data b) = xs \<and>
             drop (length xs) (data b) = drop (length xs) (data a) \<and>
             (\<forall>i. length xs \<le> i \<and> i < N a \<longrightarrow> data b ! i = data a ! i)"
proof -
  let ?b = "\<lparr>data = xs @ drop (length xs) (data a), m_sentinel = length xs\<rparr>"
  have "operator_assign a xs = Inr ?b"
    using assms by (rule operator_assign_fits)
  moreover have "N ?b = N a"
    using assms by (simp add: N_def)
  moreover have "\<forall>i. length xs \<le> i \<and> i < N a \<longrightarrow> data ?b ! i = data a ! i"
    by (simp add: nth_append N_def)
  ultimately show ?thesis
    by simp
qed

theorem assign_overwrites_prefix_witness:
  "\<exists>b. operator_assign \<lparr>data = [1, 2, 3, 4 :: int], m_sentinel = 4\<rparr> [42, 1337] = Inr b \<and>
       m_sentinel b = 2 \<and> N b = 4 \<and> take 2 (data b) = [42, 1337] \<and>
       drop 2 (data b) = [3, 4] \<and> data b ! 2 = 3 \<and> data b ! 3 = 4"
  using assign_overwrites_prefix
    [of "[42, 1337 :: int]" "\<lparr>data = [1, 2, 3, 4 :: int], m_sentinel = 4\<rparr>"]
  by (auto simp: N_def eval_nat_numeral)

text \<open>
  Claim C8. For every container, \<^verbatim>\<open>back()\<close> returns the reference to the slot at
  offset \<open>m_sentinel - 1\<close> when \<open>m_sentinel\<close> is not 0, and the reference \<^verbatim>\<open>*end()\<close>,
  which is the one at offset 0, when \<open>m_sentinel\<close> is 0; it has no failing path.
  Reading through the reference gives the last element of the live range in the
  first case (with \<open>m_sentinel \<le> N\<close>) and the content of slot 0 in the second,
  where a block of capacity 0 has no slot to read.
\<close>

theorem back_slot:
  "(m_sentinel a \<noteq> 0 \<longrightarrow> back_sa a = m_sentinel a - 1) \<and>
   (m_sentinel a = 0 \<longrightarrow> back_sa a = end_sa a \<and> back_sa a = 0) \<and>
   (m_sentinel a \<noteq> 0 \<and> m_sentinel a \<le> N a \<longrightarrow>
      load a (back_sa a) = Inr (data a ! (m_sentinel a - 1))) \<and>
   (m_sentinel a = 0 \<and> 0 < N a \<longrightarrow> load a (back_sa a) = Inr (data a ! 0))"
  by (auto simp: back_sa_def end_sa_def load_def)

theorem back_slot_witness:
  "back_sa \<lparr>data = [42, 1337, 0, 0 :: int], m_sentinel = 2\<rparr> = 1 \<and>
   load \<lparr>data = [42, 1337, 0, 0 :: int], m_sentinel = 2\<rparr>
     (back_sa \<lparr>data = [42, 1337, 0, 0 :: int], m_sentinel = 2\<rparr>) = Inr 1337 \<and>
   back_sa \<lparr>data = [5, 6, 7, 8 :: int], m_sentinel = 0\<rparr> = 0 \<and>
   load \<lparr>data = [5, 6, 7, 8 :: int], m_sentinel = 0\<rparr>
     (back_sa \<lparr>data = [5, 6, 7, 8 :: int], m_sentinel = 0\<rparr>) = Inr 5"
  using back_slot [of "\<lparr>data = [42, 1337, 0, 0 :: int], m_sentinel = 2\<rparr>"]
    back_slot [of "\<lparr>data = [5, 6, 7, 8 :: int], m_sentinel = 0\<rparr>"]
  by (auto simp: N_def)

text \<open>
  Claim C9 says that \<^verbatim>\<open>setSentinel(s)\<close> with \<open>s > N\<close> is caught by an assertion. The
  body of \<^verbatim>\<open>setSentinel\<close> is the single assignment \<^verbatim>\<open>m_sentinel = s;\<close>: unlike the
  constructors and \<^verbatim>\<open>operator=\<close> it has no \<^verbatim>\<open>assert(m_sentinel <= N)\<close>. On a container
  of capacity 4 the call \<^verbatim>\<open>setSentinel(5)\<close> returns normally and leaves \<open>m_sentinel\<close>
  at 5.
\<close>

theorem setSentinel_accepts_out_of_range:
  "setSentinel \<lparr>data = [42, 1337, 0, 0 :: int], m_sentinel = 2\<rparr> 5
     = \<lparr>data = [42, 1337, 0, 0], m_sentinel = 5\<rparr> \<and>
   N \<lparr>data = [42, 1337, 0, 0 :: int], m_sentinel = 2\<rparr> = 4"
  by (simp add: setSentinel_def N_def)

text \<open>
  Claim C10. For every container and every position, the object after a call of
  \<^verbatim>\<open>at(pos)\<close> is the object before it, whether the call returns a reference or
  throws: \<open>m_sentinel\<close> and all \<open>N\<close> slots are unchanged.
\<close>

theorem at_leaves_object:
  "snd (at a pos) = a \<and>
   m_sentinel (snd (at a pos)) = m_sentinel a \<and> data (snd (at a pos)) = data a"
  by (simp add: at_def)

end
